theory Spec2Isabelle
  imports Complex_Main "HOL-Library.Word"
begin

section \<open>Audio quality analysis: audio_analyzer.py\<close>

text \<open>
  A shallow embedding of \<^verbatim>\<open>analyze_wav\<close> from the point where the WAV container has
  been read: channel reduction, the metrics, and the final assessment.

  Numbers. A NumPy array of samples holds finite values and is a \<open>real list\<close>. A NumPy or
  Python floating-point scalar is an \<open>npfloat\<close>: a finite number, an infinity, or NaN.
  Arithmetic on finite values is exact arithmetic on the reals: rounding to float32 or
  float64 is not modelled. What is modelled of IEEE arithmetic is where NaN and the
  infinities come from and how they behave: \<open>0/0\<close> (the mean of an empty slice) is NaN,
  every ordered comparison with NaN is false, and NaN propagates through arithmetic.
\<close>

subsection \<open>Floating-point scalars\<close>

datatype npfloat = Fin real | PInf | NInf | NaN

fun f_negative :: "npfloat \<Rightarrow> bool" where
  "f_negative (Fin a) = (a < 0)"
| "f_negative NInf = True"
| "f_negative _ = False"

fun f_zero :: "npfloat \<Rightarrow> bool" where
  "f_zero (Fin a) = (a = 0)"
| "f_zero _ = False"

fun f_add :: "npfloat \<Rightarrow> npfloat \<Rightarrow> npfloat" where
  "f_add (Fin a) (Fin b) = Fin (a + b)"
| "f_add NaN _ = NaN"
| "f_add _ NaN = NaN"
| "f_add PInf NInf = NaN"
| "f_add NInf PInf = NaN"
| "f_add PInf _ = PInf"
| "f_add _ PInf = PInf"
| "f_add NInf _ = NInf"
| "f_add _ NInf = NInf"

fun f_mul :: "npfloat \<Rightarrow> npfloat \<Rightarrow> npfloat" where
  "f_mul (Fin a) (Fin b) = Fin (a * b)"
| "f_mul NaN _ = NaN"
| "f_mul _ NaN = NaN"
| "f_mul x y =
     (if f_zero x \<or> f_zero y then NaN
      else if f_negative x = f_negative y then PInf else NInf)"

text \<open>Division; a zero divisor is taken to be \<open>+0\<close> (the reals have no signed zero).\<close>

fun f_div :: "npfloat \<Rightarrow> npfloat \<Rightarrow> npfloat" where
  "f_div (Fin a) (Fin b) =
     (if b \<noteq> 0 then Fin (a / b)
      else if a = 0 then NaN else if 0 < a then PInf else NInf)"
| "f_div NaN _ = NaN"
| "f_div _ NaN = NaN"
| "f_div (Fin a) _ = Fin 0"
| "f_div x (Fin b) = (if f_negative x = (b < 0) then PInf else NInf)"
| "f_div _ _ = NaN"

fun f_sqrt :: "npfloat \<Rightarrow> npfloat" where
  "f_sqrt (Fin a) = (if 0 \<le> a then Fin (sqrt a) else NaN)"
| "f_sqrt PInf = PInf"
| "f_sqrt _ = NaN"

fun f_log10 :: "npfloat \<Rightarrow> npfloat" where
  "f_log10 (Fin a) = (if 0 < a then Fin (log 10 a) else if a = 0 then NInf else NaN)"
| "f_log10 PInf = PInf"
| "f_log10 _ = NaN"

fun f_abs :: "npfloat \<Rightarrow> npfloat" where
  "f_abs (Fin a) = Fin \<bar>a\<bar>"
| "f_abs PInf = PInf"
| "f_abs NInf = PInf"
| "f_abs NaN = NaN"

text \<open>\<open>a < b\<close> on floats: false as soon as one side is NaN.\<close>

fun f_lt :: "npfloat \<Rightarrow> npfloat \<Rightarrow> bool" where
  "f_lt (Fin a) (Fin b) = (a < b)"
| "f_lt NaN _ = False"
| "f_lt _ NaN = False"
| "f_lt _ NInf = False"
| "f_lt PInf _ = False"
| "f_lt _ _ = True"

definition f_gt :: "npfloat \<Rightarrow> npfloat \<Rightarrow> bool" where
  "f_gt a b = f_lt b a"

text \<open>
  Python's built-in \<^verbatim>\<open>min(a, b)\<close>: it keeps \<open>a\<close> unless \<open>b < a\<close>, so \<^verbatim>\<open>min(100, nan)\<close>
  is \<open>100\<close>.
\<close>

definition py_min :: "npfloat \<Rightarrow> npfloat \<Rightarrow> npfloat" where
  "py_min a b = (if f_lt b a then b else a)"

definition is_finite :: "npfloat \<Rightarrow> bool" where
  "is_finite x = (case x of Fin _ \<Rightarrow> True | _ \<Rightarrow> False)"

text \<open>The additive guard \<^verbatim>\<open>1e-10\<close>.\<close>

definition eps :: real where
  "eps = 1 / 10 ^ 10"

subsection \<open>Final assessment (lines 125--156)\<close>

text \<open>
  The running \<^verbatim>\<open>score\<close> and \<^verbatim>\<open>issues\<close> are threaded through the three statements
  of the source: the \<^verbatim>\<open>if/elif/elif\<close> on clipping, the \<^verbatim>\<open>if\<close> on level and the
  \<^verbatim>\<open>if\<close> on DC offset.
\<close>

type_synonym assessment = "int \<times> string list"

definition deduct :: "int \<Rightarrow> string \<Rightarrow> assessment \<Rightarrow> assessment" where
  "deduct n issue a = (fst a - n, snd a @ [issue])"

definition clipping_rule :: "npfloat \<Rightarrow> npfloat \<Rightarrow> npfloat \<Rightarrow> assessment \<Rightarrow> assessment" where
  "clipping_rule peak_db hard_clip_pct soft_clip_pct a =
     (if f_gt peak_db (Fin 0) then deduct 40 ''CRITICAL: Digital clipping (peak >= 0dB)'' a
      else if f_gt hard_clip_pct (Fin (1 / 10)) then deduct 30 ''Hard clipping detected'' a
      else if f_gt soft_clip_pct (Fin 2) then deduct 10 ''Moderate soft clipping'' a
      else a)"

definition quiet_rule :: "npfloat \<Rightarrow> assessment \<Rightarrow> assessment" where
  "quiet_rule peak_db a =
     (if f_lt peak_db (Fin (- 24)) then deduct 20 ''Signal too quiet (<-24dB)'' a else a)"

definition dc_rule :: "npfloat \<Rightarrow> assessment \<Rightarrow> assessment" where
  "dc_rule mean_val a =
     (if f_gt (f_abs mean_val) (Fin (1 / 100)) then deduct 10 ''DC offset present'' a else a)"

definition final_assessment :: "npfloat \<Rightarrow> npfloat \<Rightarrow> npfloat \<Rightarrow> npfloat \<Rightarrow> assessment" where
  "final_assessment peak_db hard_clip_pct soft_clip_pct mean_val =
     dc_rule mean_val
       (quiet_rule peak_db
         (clipping_rule peak_db hard_clip_pct soft_clip_pct (100, [])))"

definition grade_of :: "int \<Rightarrow> string" where
  "grade_of score =
     (if score \<ge> 90 then ''A+'' else if score \<ge> 80 then ''A''
      else if score \<ge> 70 then ''B'' else if score \<ge> 60 then ''C'' else ''F'')"

text \<open>The deduction of each statement, written out in closed form.\<close>

definition clipping_deduction :: "npfloat \<Rightarrow> npfloat \<Rightarrow> npfloat \<Rightarrow> int" where
  "clipping_deduction peak_db hard_clip_pct soft_clip_pct =
     (if f_gt peak_db (Fin 0) then 40
      else if f_gt hard_clip_pct (Fin (1 / 10)) then 30
      else if f_gt soft_clip_pct (Fin 2) then 10 else 0)"

definition quiet_deduction :: "npfloat \<Rightarrow> int" where
  "quiet_deduction peak_db = (if f_lt peak_db (Fin (- 24)) then 20 else 0)"

definition dc_deduction :: "npfloat \<Rightarrow> int" where
  "dc_deduction mean_val = (if f_gt (f_abs mean_val) (Fin (1 / 100)) then 10 else 0)"

subsection \<open>NumPy array operations\<close>

text \<open>
  Every failure below is a \<^verbatim>\<open>ValueError\<close> of NumPy or a \<^verbatim>\<open>ZeroDivisionError\<close> of
  Python. Inside \<^verbatim>\<open>analyze_wav\<close> each one is caught by \<^verbatim>\<open>except Exception\<close>
  (lines 172--174): the message is printed, no further output is produced and the function
  returns \<^verbatim>\<open>False\<close>.
\<close>

datatype error =
    ZeroDivisionError
  | ValueError_reshape
  | ValueError_zero_size
  | ValueError_broadcast

text \<open>\<^verbatim>\<open>a.reshape((-1, n))\<close>: rows of \<open>n\<close> consecutive entries, or an error when the size is
  no multiple of \<open>n\<close>.\<close>

definition reshape :: "nat \<Rightarrow> 'a list \<Rightarrow> error + 'a list list" where
  "reshape n xs =
     (if n = 0 \<or> length xs mod n \<noteq> 0 then Inl ValueError_reshape
      else Inr (map (\<lambda>i. take n (drop (i * n) xs)) [0..<length xs div n]))"

text \<open>\<^verbatim>\<open>np.max\<close> raises on a zero-size array.\<close>

fun np_max :: "real list \<Rightarrow> error + npfloat" where
  "np_max [] = Inl ValueError_zero_size"
| "np_max (x # xs) = Inr (Fin (fold max xs x))"

text \<open>\<^verbatim>\<open>np.mean\<close> is the sum over the count; on an empty array that is \<open>0/0\<close>, a NaN
  (with a warning, not an exception).\<close>

definition np_mean :: "real list \<Rightarrow> npfloat" where
  "np_mean xs = f_div (Fin (sum_list xs)) (Fin (real (length xs)))"

text \<open>\<^verbatim>\<open>np.sum\<close> of a boolean array counts the entries that are true.\<close>

definition np_sum :: "bool list \<Rightarrow> nat" where
  "np_sum bs = sum_list (map (\<lambda>b. if b then 1 else 0) bs)"

text \<open>Elementwise \<^verbatim>\<open>&\<close> of two boolean arrays of one shape.\<close>

definition np_and :: "bool list \<Rightarrow> bool list \<Rightarrow> bool list" where
  "np_and as bs = map2 (\<and>) as bs"

text \<open>Elementwise subtraction of one-dimensional arrays, with NumPy's broadcasting: equal
  lengths, or one side of length 1 that is stretched; any other pair of shapes raises.\<close>

definition np_sub :: "real list \<Rightarrow> real list \<Rightarrow> error + real list" where
  "np_sub xs ys =
     (if length xs = length ys then Inr (map2 (-) xs ys)
      else if length ys = 1 then Inr (map (\<lambda>x. x - hd ys) xs)
      else if length xs = 1 then Inr (map (\<lambda>y. hd xs - y) ys)
      else Inl ValueError_broadcast)"

text \<open>The slice \<^verbatim>\<open>a[-k:]\<close>: the last \<open>k\<close> entries, but the whole array when \<open>k = 0\<close>
  (\<^verbatim>\<open>a[-0:]\<close> is \<^verbatim>\<open>a[0:]\<close>).\<close>

definition last_slice :: "nat \<Rightarrow> 'a list \<Rightarrow> 'a list" where
  "last_slice k xs = (if k = 0 then xs else drop (length xs - k) xs)"

subsection \<open>Channel reduction (lines 36--47)\<close>

record wav =
  n_channels :: nat
  sample_width :: nat
  sample_rate :: nat
  n_frames :: nat
  audio_array :: "16 word list"

text \<open>\<^verbatim>\<open>np.mean(audio_array, axis=1)\<close> on rows of int16: the mean is taken in floating point,
  so the sum of a row does not wrap. Rows have \<open>n_channels > 1\<close> entries.\<close>

definition mean_axis1 :: "16 word list list \<Rightarrow> real list" where
  "mean_axis1 rows =
     map (\<lambda>row. sum_list (map (\<lambda>s. real_of_int (sint s)) row) / real (length row)) rows"

definition audio_mono :: "nat \<Rightarrow> 16 word list \<Rightarrow> error + real list" where
  "audio_mono n_chan arr =
     (if n_chan > 1 then
        (case reshape n_chan arr of
           Inl e \<Rightarrow> Inl e
         | Inr rows \<Rightarrow> Inr (mean_axis1 rows))
      else Inr (map (\<lambda>s. real_of_int (sint s)) arr))"

definition channel_reducer :: "nat \<Rightarrow> 16 word list \<Rightarrow> error + real list" where
  "channel_reducer n_chan arr =
     (case audio_mono n_chan arr of
        Inl e \<Rightarrow> Inl e
      | Inr mixed \<Rightarrow> Inr (map (\<lambda>x. x / 32768) mixed))"

subsection \<open>Metrics (lines 54--121)\<close>

definition calc_peak :: "real list \<Rightarrow> error + npfloat" where
  "calc_peak audio_float = np_max (map abs audio_float)"

text \<open>
  The level in decibels, \<^verbatim>\<open>20 * np.log10(level + 1e-10)\<close>. The sum is exact here. In
  float32 the guard is absorbed at a level of 1.0 (\<open>1.0 + 1e-10\<close> rounds to \<open>1.0\<close>), so
  whether a full-scale peak has a level of exactly 0 dB or just above it is a matter of the
  precision NumPy adds in, which this model does not decide.
\<close>

definition calc_db :: "npfloat \<Rightarrow> npfloat" where
  "calc_db level = f_mul (Fin 20) (f_log10 (f_add level (Fin eps)))"

definition calc_rms :: "real list \<Rightarrow> npfloat" where
  "calc_rms audio_float = f_sqrt (np_mean (map (\<lambda>x. x ^ 2) audio_float))"

definition calc_crest :: "npfloat \<Rightarrow> npfloat \<Rightarrow> npfloat" where
  "calc_crest peak rms = f_div peak (f_add rms (Fin eps))"

definition calc_hard_clip :: "real list \<Rightarrow> nat" where
  "calc_hard_clip audio_float = np_sum (map (\<lambda>a. a \<ge> 99 / 100) (map abs audio_float))"

definition calc_soft_clip :: "real list \<Rightarrow> nat" where
  "calc_soft_clip audio_float =
     np_sum (np_and (map (\<lambda>a. a \<ge> 95 / 100) (map abs audio_float))
                    (map (\<lambda>a. a < 99 / 100) (map abs audio_float)))"

definition calc_pct :: "nat \<Rightarrow> nat \<Rightarrow> npfloat" where
  "calc_pct count len = f_mul (f_div (Fin (real count)) (Fin (real len))) (Fin 100)"

definition clipping_status :: "npfloat \<Rightarrow> npfloat \<Rightarrow> string" where
  "clipping_status hard_clip_pct soft_clip_pct =
     (if f_gt hard_clip_pct (Fin (1 / 10)) then ''CLIPPING DETECTED - reduce level!''
      else if f_gt soft_clip_pct (Fin 1) then ''Soft clipping (acceptable for overdrive)''
      else ''No clipping'')"

definition calc_sym_error :: "real list \<Rightarrow> error + npfloat" where
  "calc_sym_error audio_float =
     (let half_size = length audio_float div 2 in
      case np_sub (take half_size audio_float) (rev (last_slice half_size audio_float)) of
        Inl e \<Rightarrow> Inl e
      | Inr d \<Rightarrow> Inr (np_mean (map abs d)))"

definition calc_thd_est :: "npfloat \<Rightarrow> npfloat \<Rightarrow> npfloat" where
  "calc_thd_est sym_error rms =
     py_min (Fin 100) (f_mul (f_div sym_error (f_add rms (Fin eps))) (Fin 100))"

definition character_of :: "npfloat \<Rightarrow> string" where
  "character_of thd_est =
     (if f_lt thd_est (Fin 5) then ''Clean''
      else if f_lt thd_est (Fin 15) then ''Light distortion''
      else if f_lt thd_est (Fin 50) then ''Heavy distortion (typical overdrive)''
      else ''Extreme distortion'')"

definition calc_noise_floor :: "real list \<Rightarrow> npfloat" where
  "calc_noise_floor audio_float =
     (let sorted_mag = sort (map abs audio_float);
          noise_floor_idx = length sorted_mag div 10
      in f_sqrt (np_mean (map (\<lambda>x. x ^ 2) (take noise_floor_idx sorted_mag))))"

definition calc_snr :: "npfloat \<Rightarrow> npfloat \<Rightarrow> npfloat" where
  "calc_snr peak noise_floor =
     f_mul (Fin 20) (f_log10 (f_div (f_add peak (Fin eps)) (f_add noise_floor (Fin eps))))"

definition quality_of :: "npfloat \<Rightarrow> string" where
  "quality_of snr =
     (if f_gt snr (Fin 40) then ''Excellent''
      else if f_gt snr (Fin 20) then ''Good'' else ''Poor'')"

subsection \<open>The analysis as a whole\<close>

record report =
  peak :: npfloat
  peak_db :: npfloat
  rms :: npfloat
  rms_db :: npfloat
  mean_val :: npfloat
  crest :: npfloat
  hard_clip :: nat
  soft_clip :: nat
  hard_clip_pct :: npfloat
  soft_clip_pct :: npfloat
  status :: string
  thd_est :: npfloat
  character :: string
  noise_floor :: npfloat
  snr :: npfloat
  quality :: string
  score :: int
  issues :: "string list"
  grade :: string

text \<open>
  The statements of lines 54--156 in their order. Only two of them can raise:
  \<^verbatim>\<open>np.max\<close> (line 55) and the subtraction of the two half slices (line 94).
\<close>

definition metric_suite :: "real list \<Rightarrow> error + report" where
  "metric_suite audio_float =
     (case calc_peak audio_float of
        Inl e \<Rightarrow> Inl e
      | Inr pk \<Rightarrow>
          let pk_db = calc_db pk;
              r = calc_rms audio_float;
              r_db = calc_db r;
              mv = np_mean audio_float;
              cf = calc_crest pk r;
              hc = calc_hard_clip audio_float;
              sc = calc_soft_clip audio_float;
              hc_pct = calc_pct hc (length audio_float);
              sc_pct = calc_pct sc (length audio_float)
          in (case calc_sym_error audio_float of
               Inl e \<Rightarrow> Inl e
             | Inr sym_error \<Rightarrow>
                 let thd = calc_thd_est sym_error r;
                     nf = calc_noise_floor audio_float;
                     sn = calc_snr pk nf;
                     fa = final_assessment pk_db hc_pct sc_pct mv
                 in Inr \<lparr> peak = pk, peak_db = pk_db, rms = r, rms_db = r_db,
                          mean_val = mv, crest = cf, hard_clip = hc, soft_clip = sc,
                          hard_clip_pct = hc_pct, soft_clip_pct = sc_pct,
                          status = clipping_status hc_pct sc_pct,
                          thd_est = thd, character = character_of thd,
                          noise_floor = nf, snr = sn, quality = quality_of sn,
                          score = fst fa, issues = snd fa, grade = grade_of (fst fa) \<rparr>))"

text \<open>
  \<^verbatim>\<open>analyze_wav\<close> once the container is open: the duration printed on line 30 divides by
  the sample rate, then the samples are reduced to mono and analysed. The argument is what
  the \<^verbatim>\<open>wave\<close> module has read, \<open>audio_array\<close> being the result of
  \<^verbatim>\<open>np.frombuffer(audio_bytes, dtype=np.int16)\<close>. The two earlier exits, a missing file
  (lines 12--14) and a \<^verbatim>\<open>wave.Error\<close> (lines 169--171), happen before any sample is read.
\<close>

definition analyze_wav :: "wav \<Rightarrow> error + report" where
  "analyze_wav w =
     (if sample_rate w = 0 then Inl ZeroDivisionError
      else (case channel_reducer (n_channels w) (audio_array w) of
              Inl e \<Rightarrow> Inl e
            | Inr audio_float \<Rightarrow> metric_suite audio_float))"

subsection \<open>Sample files\<close>

text \<open>A one-frame mono file holding the sample 0.\<close>

definition silent_frame :: wav where
  "silent_frame =
     \<lparr> n_channels = 1, sample_width = 2, sample_rate = 44100, n_frames = 1,
       audio_array = [0] \<rparr>"

text \<open>A one-frame mono file holding the sample 16384, half of full scale.\<close>

definition half_scale_frame :: wav where
  "half_scale_frame =
     \<lparr> n_channels = 1, sample_width = 2, sample_rate = 44100, n_frames = 1,
       audio_array = [16384] \<rparr>"

text \<open>A stereo file with no frames.\<close>

definition empty_stereo :: wav where
  "empty_stereo =
     \<lparr> n_channels = 2, sample_width = 2, sample_rate = 44100, n_frames = 0,
       audio_array = [] \<rparr>"

subsection \<open>Facts about the final assessment\<close>

lemma fst_deduct: "fst (deduct n s a) = fst a - n"
  by (simp add: deduct_def)

lemma fst_clipping_rule:
  "fst (clipping_rule p h s a) = fst a - clipping_deduction p h s"
  by (simp add: clipping_rule_def clipping_deduction_def fst_deduct)

lemma fst_quiet_rule: "fst (quiet_rule p a) = fst a - quiet_deduction p"
  by (simp add: quiet_rule_def quiet_deduction_def fst_deduct)

lemma fst_dc_rule: "fst (dc_rule m a) = fst a - dc_deduction m"
  by (simp add: dc_rule_def dc_deduction_def fst_deduct)

lemma score_closed_form:
  "fst (final_assessment p h s m) =
     100 - clipping_deduction p h s - quiet_deduction p - dc_deduction m"
  by (simp add: final_assessment_def fst_dc_rule fst_quiet_rule fst_clipping_rule)

lemma clipping_deduction_cases: "clipping_deduction p h s \<in> {0, 10, 30, 40}"
  by (simp add: clipping_deduction_def)

lemma quiet_deduction_cases: "quiet_deduction p \<in> {0, 20}"
  by (simp add: quiet_deduction_def)

lemma dc_deduction_cases: "dc_deduction m \<in> {0, 10}"
  by (simp add: dc_deduction_def)

lemma score_bounds:
  "30 \<le> fst (final_assessment p h s m) \<and> fst (final_assessment p h s m) \<le> 100"
  using clipping_deduction_cases [of p h s] quiet_deduction_cases [of p]
    dc_deduction_cases [of m]
  by (auto simp add: score_closed_form)

text \<open>When the first branch of the clipping statement is taken, the other two are not.\<close>

lemma clipping_rule_peak_first:
  "f_gt p (Fin 0) \<Longrightarrow>
   clipping_rule p h s a = deduct 40 ''CRITICAL: Digital clipping (peak >= 0dB)'' a"
  by (simp add: clipping_rule_def)

subsection \<open>Facts about the operations\<close>

lemma eps_pos: "0 < eps"
  by (simp add: eps_def)

lemma log10_eps: "log 10 eps = - 10"
proof -
  have "log 10 ((10::real) ^ 10) = real 10"
    by (rule log_pow_cancel) simp_all
  moreover have "log 10 eps = - log 10 ((10::real) ^ 10)"
    unfolding eps_def by (rule log_recip)
  ultimately show ?thesis by simp
qed

lemma np_mean_Nil: "np_mean [] = NaN"
  by (simp add: np_mean_def)

lemma length_ge_2: "xs \<noteq> [] \<Longrightarrow> length xs \<noteq> 1 \<Longrightarrow> 2 \<le> length xs"
  by (cases xs) (auto simp: Suc_le_eq)

text \<open>
  The two half slices of line 94 always subtract: they have equal length, except on a
  single sample, where the first is empty, the second is the whole array
  (\<^verbatim>\<open>audio_float[-0:]\<close>) and broadcasting yields the empty array.
\<close>

lemma np_sub_halves:
  assumes "xs \<noteq> []"
  shows "np_sub (take (length xs div 2) xs) (rev (last_slice (length xs div 2) xs)) =
     Inr (if length xs = 1 then []
          else map2 (-) (take (length xs div 2) xs)
                 (rev (drop (length xs - length xs div 2) xs)))"
proof (cases "length xs = 1")
  case True
  then show ?thesis by (simp add: np_sub_def last_slice_def)
next
  case False
  with assms have "2 \<le> length xs" by (rule length_ge_2)
  then have "0 < length xs div 2" by simp
  then show ?thesis using False by (auto simp add: np_sub_def last_slice_def min_def)
qed

lemma calc_sym_error_eq:
  "xs \<noteq> [] \<Longrightarrow>
   calc_sym_error xs =
     Inr (np_mean (map abs
       (if length xs = 1 then []
        else map2 (-) (take (length xs div 2) xs)
               (rev (drop (length xs - length xs div 2) xs)))))"
  by (simp add: calc_sym_error_def np_sub_halves Let_def)

lemma calc_peak_total: "xs \<noteq> [] \<Longrightarrow> \<exists>p. calc_peak xs = Inr p"
  by (cases xs) (simp_all add: calc_peak_def)

text \<open>On a non-empty sequence the analysis runs to the end.\<close>

lemma metric_suite_total: "xs \<noteq> [] \<Longrightarrow> \<exists>r. metric_suite xs = Inr r"
proof -
  assume ne: "xs \<noteq> []"
  obtain p where p: "calc_peak xs = Inr p"
    using calc_peak_total [OF ne] by blast
  have "\<exists>s. calc_sym_error xs = Inr s"
    by (simp add: calc_sym_error_eq [OF ne])
  then obtain s where s: "calc_sym_error xs = Inr s" by blast
  show ?thesis by (simp add: metric_suite_def p s Let_def)
qed

text \<open>What each field of a report is.\<close>

lemma metric_suite_fields:
  assumes "metric_suite xs = Inr r"
  shows "calc_peak xs = Inr (peak r)"
    and "peak_db r = calc_db (peak r)"
    and "rms r = calc_rms xs"
    and "rms_db r = calc_db (rms r)"
    and "mean_val r = np_mean xs"
    and "crest r = calc_crest (peak r) (rms r)"
    and "hard_clip r = calc_hard_clip xs"
    and "soft_clip r = calc_soft_clip xs"
    and "hard_clip_pct r = calc_pct (hard_clip r) (length xs)"
    and "soft_clip_pct r = calc_pct (soft_clip r) (length xs)"
    and "\<exists>s. calc_sym_error xs = Inr s \<and> thd_est r = calc_thd_est s (rms r)"
    and "noise_floor r = calc_noise_floor xs"
    and "snr r = calc_snr (peak r) (noise_floor r)"
  using assms by (auto simp add: metric_suite_def Let_def split: sum.splits)

lemma metric_suite_verdict:
  "metric_suite xs = Inr r \<Longrightarrow>
   (score r, issues r) =
     final_assessment (peak_db r) (hard_clip_pct r) (soft_clip_pct r) (mean_val r)"
  by (auto simp add: metric_suite_def Let_def split: sum.splits)

lemma metric_suite_score:
  "metric_suite xs = Inr r \<Longrightarrow>
   score r = fst (final_assessment (peak_db r) (hard_clip_pct r) (soft_clip_pct r) (mean_val r))"
  using metric_suite_verdict [of xs r] by (metis fst_conv)

lemma analyze_wav_metric_suite:
  "analyze_wav w = Inr r \<Longrightarrow> \<exists>xs. metric_suite xs = Inr r"
  by (auto simp add: analyze_wav_def split: if_splits sum.splits)

lemma analyze_silent_frame: "analyze_wav silent_frame = metric_suite [0]"
  by (simp add: analyze_wav_def silent_frame_def channel_reducer_def audio_mono_def)

lemma analyze_half_scale_frame: "analyze_wav half_scale_frame = metric_suite [1 / 2]"
  by (simp add: analyze_wav_def half_scale_frame_def channel_reducer_def audio_mono_def)

lemma metric_suite_Nil: "metric_suite [] = Inl ValueError_zero_size"
  by (simp add: metric_suite_def calc_peak_def)

lemma channel_reducer_Nil: "channel_reducer n [] = Inr []"
  by (simp add: channel_reducer_def audio_mono_def reshape_def mean_axis1_def)

subsection \<open>Empty input\<close>

text \<open>
  C1. An empty sample sequence makes the analysis fail: \<^verbatim>\<open>np.max\<close> on line 55 raises on
  the zero-size array before any metric is computed, the handler of lines 172--174 reports
  the error, and no report is produced. This holds for the metrics alone and for every
  decoded file with no samples, whatever its channel count.
\<close>

theorem empty_buffer_is_an_error:
  "metric_suite [] = Inl ValueError_zero_size \<and>
   (sample_rate w \<noteq> 0 \<and> audio_array w = [] \<longrightarrow> analyze_wav w = Inl ValueError_zero_size)"
  by (simp add: analyze_wav_def channel_reducer_Nil metric_suite_Nil)

theorem empty_buffer_is_an_error_witness:
  "sample_rate empty_stereo \<noteq> 0 \<and> audio_array empty_stereo = [] \<and>
   analyze_wav empty_stereo = Inl ValueError_zero_size"
  using empty_buffer_is_an_error [of empty_stereo] by (simp add: empty_stereo_def)

subsection \<open>The score\<close>

text \<open>
  C3. The score starts from 100. The clipping statement is one \<^verbatim>\<open>if/elif/elif\<close>, so at
  most one of its three deductions (40 for the peak rule, else 30 when hard_clip_pct
  exceeds 0.1, else 10 when soft_clip_pct exceeds 2) is taken. The quiet rule (20 when
  peak_db is below -24) and the DC rule (10 when the absolute DC offset exceeds 0.01) are
  separate statements: each is subtracted whatever the clipping statement did.
\<close>

theorem score_is_ordered_chain:
  "fst (final_assessment pk_db hc_pct sc_pct dc) =
     100
     - (if f_gt pk_db (Fin 0) then 40
        else if f_gt hc_pct (Fin (1 / 10)) then 30
        else if f_gt sc_pct (Fin 2) then 10 else 0)
     - (if f_lt pk_db (Fin (- 24)) then 20 else 0)
     - (if f_gt (f_abs dc) (Fin (1 / 100)) then 10 else 0)"
  by (simp add: score_closed_form clipping_deduction_def quiet_deduction_def
      dc_deduction_def)

subsection \<open>A single sample\<close>

lemma calc_noise_floor_short: "length xs < 10 \<Longrightarrow> calc_noise_floor xs = NaN"
  by (simp add: calc_noise_floor_def Let_def np_mean_Nil)

lemma calc_snr_NaN: "calc_snr p NaN = NaN"
  by (cases p) (simp_all add: calc_snr_def)

lemma calc_thd_est_NaN: "calc_thd_est NaN q = Fin 100"
  by (simp add: calc_thd_est_def py_min_def)

text \<open>
  C4. On a file of one sample (16384, that is 0.5) the analysis completes, but the noise
  floor is the root mean square of the empty slice \<^verbatim>\<open>sorted_mag[:0]\<close>, a NaN, and so is
  the signal-to-noise ratio computed from it: two of the metrics are not finite. (The
  symmetry error is a NaN as well; the distortion estimate is 100 only because
  \<^verbatim>\<open>min(100, nan)\<close> keeps its first argument.)
\<close>

theorem single_sample_noise_floor_is_nan:
  "\<exists>r. analyze_wav half_scale_frame = Inr r \<and> noise_floor r = NaN \<and> snr r = NaN
       \<and> \<not> is_finite (noise_floor r) \<and> \<not> is_finite (snr r) \<and> thd_est r = Fin 100"
proof -
  obtain r where r: "metric_suite [1 / 2] = Inr r"
    using metric_suite_total [of "[1 / 2]"] by auto
  note f = metric_suite_fields [OF r]
  have nf: "noise_floor r = NaN"
    using f(12) by (simp add: calc_noise_floor_short)
  have sn: "snr r = NaN"
    using f(13) nf by (simp add: calc_snr_NaN)
  have th: "thd_est r = Fin 100"
    using f(11) by (auto simp add: calc_sym_error_eq np_mean_Nil calc_thd_est_NaN)
  show ?thesis
    using r nf sn th by (simp add: analyze_half_scale_frame is_finite_def)
qed

subsection \<open>Range of the score\<close>

text \<open>
  C5. Whenever the analysis produces its report, the score in it is an integer between 0
  and 100.
\<close>

theorem score_in_0_100:
  "analyze_wav w = Inr r \<Longrightarrow> 0 \<le> score r \<and> score r \<le> 100"
proof -
  assume "analyze_wav w = Inr r"
  then obtain xs where "metric_suite xs = Inr r"
    using analyze_wav_metric_suite by blast
  then have "score r =
      fst (final_assessment (peak_db r) (hard_clip_pct r) (soft_clip_pct r) (mean_val r))"
    by (rule metric_suite_score)
  then show ?thesis
    using score_bounds [of "peak_db r" "hard_clip_pct r" "soft_clip_pct r" "mean_val r"]
    by simp
qed

theorem score_in_0_100_witness:
  "\<exists>r. analyze_wav silent_frame = Inr r \<and> 0 \<le> score r \<and> score r \<le> 100"
proof -
  obtain r where r: "analyze_wav silent_frame = Inr r"
    using metric_suite_total [of "[0]"] by (auto simp add: analyze_silent_frame)
  from score_in_0_100 [OF r] r show ?thesis by blast
qed

subsection \<open>Silence\<close>

lemma max_zero_funpow: "(max (0::real) ^^ n) 0 = 0"
  by (induction n) simp_all

lemma calc_peak_zeros: "0 < n \<Longrightarrow> calc_peak (replicate n 0) = Inr (Fin 0)"
  by (cases n) (simp_all add: calc_peak_def max_zero_funpow)

lemma np_mean_zeros: "0 < n \<Longrightarrow> np_mean (replicate n 0) = Fin 0"
  by (simp add: np_mean_def sum_list_replicate)

lemma calc_rms_zeros: "0 < n \<Longrightarrow> calc_rms (replicate n 0) = Fin 0"
  by (simp add: calc_rms_def np_mean_zeros)

lemma calc_hard_clip_zeros: "calc_hard_clip (replicate n 0) = 0"
  by (simp add: calc_hard_clip_def np_sum_def)

lemma calc_soft_clip_zeros: "calc_soft_clip (replicate n 0) = 0"
  by (simp add: calc_soft_clip_def np_and_def np_sum_def)

lemma calc_pct_zero: "0 < n \<Longrightarrow> calc_pct 0 n = Fin 0"
  by (simp add: calc_pct_def)

lemma calc_db_zero: "calc_db (Fin 0) = Fin (- 200)"
  using eps_pos by (simp add: calc_db_def log10_eps)

lemma calc_crest_zero: "calc_crest (Fin 0) (Fin 0) = Fin 0"
  using eps_pos by (simp add: calc_crest_def)

lemma final_assessment_silence:
  "final_assessment (Fin (- 200)) (Fin 0) (Fin 0) (Fin 0) =
     (80, [''Signal too quiet (<-24dB)''])"
  by (simp add: final_assessment_def clipping_rule_def quiet_rule_def dc_rule_def
      deduct_def f_gt_def)

text \<open>
  C6. On a non-empty sequence of zeros the analysis completes with peak 0, rms 0 and DC
  offset 0; the crest factor is finite (it is \<open>0 / 1e-10\<close>); peak_db is
  \<open>20 log10 1e-10 = -200\<close>, below -24; and the score is 80, the only issue being the quiet
  signal.
\<close>

theorem all_zero_buffer:
  assumes "0 < n"
  shows "\<exists>r. metric_suite (replicate n 0) = Inr r
           \<and> peak r = Fin 0 \<and> rms r = Fin 0 \<and> mean_val r = Fin 0
           \<and> is_finite (crest r)
           \<and> peak_db r = Fin (- 200) \<and> f_lt (peak_db r) (Fin (- 24))
           \<and> score r = 80 \<and> issues r = [''Signal too quiet (<-24dB)'']"
proof -
  from assms have "replicate n (0::real) \<noteq> []" by simp
  then obtain r where r: "metric_suite (replicate n 0) = Inr r"
    using metric_suite_total by blast
  note f = metric_suite_fields [OF r]
  have pk: "peak r = Fin 0" using f(1) assms by (simp add: calc_peak_zeros)
  have rm: "rms r = Fin 0" using f(3) assms by (simp add: calc_rms_zeros)
  have mv: "mean_val r = Fin 0" using f(5) assms by (simp add: np_mean_zeros)
  have cf: "crest r = Fin 0" using f(6) pk rm by (simp add: calc_crest_zero)
  have db: "peak_db r = Fin (- 200)" using f(2) pk by (simp add: calc_db_zero)
  have hc: "hard_clip_pct r = Fin 0"
    using f(7) f(9) assms by (simp add: calc_hard_clip_zeros calc_pct_zero)
  have sc: "soft_clip_pct r = Fin 0"
    using f(8) f(10) assms by (simp add: calc_soft_clip_zeros calc_pct_zero)
  have "(score r, issues r) = (80, [''Signal too quiet (<-24dB)''])"
    using metric_suite_verdict [OF r] by (simp only: db hc sc mv final_assessment_silence)
  then show ?thesis using r pk rm mv cf db by (simp add: is_finite_def)
qed

theorem all_zero_buffer_witness:
  "(0::nat) < 3 \<and> (\<exists>r. metric_suite [0, 0, 0] = Inr r
           \<and> peak r = Fin 0 \<and> rms r = Fin 0 \<and> mean_val r = Fin 0
           \<and> is_finite (crest r)
           \<and> peak_db r = Fin (- 200) \<and> f_lt (peak_db r) (Fin (- 24))
           \<and> score r = 80 \<and> issues r = [''Signal too quiet (<-24dB)''])"
  using all_zero_buffer [of 3] by (simp add: numeral_3_eq_3)

subsection \<open>Clipping counts\<close>

lemma calc_hard_clip_filter:
  "calc_hard_clip xs = length (filter (\<lambda>x. 99 / 100 \<le> \<bar>x\<bar>) xs)"
  by (induction xs) (simp_all add: calc_hard_clip_def np_sum_def)

lemma calc_soft_clip_filter:
  "calc_soft_clip xs = length (filter (\<lambda>x. 95 / 100 \<le> \<bar>x\<bar> \<and> \<bar>x\<bar> < 99 / 100) xs)"
  by (induction xs) (simp_all add: calc_soft_clip_def np_and_def np_sum_def)

lemma clip_bands_partition:
  "length (filter (\<lambda>x::real. 99 / 100 \<le> \<bar>x\<bar>) xs)
   + length (filter (\<lambda>x. 95 / 100 \<le> \<bar>x\<bar> \<and> \<bar>x\<bar> < 99 / 100) xs)
   = length (filter (\<lambda>x. 95 / 100 \<le> \<bar>x\<bar>) xs)"
  by (induction xs) auto

lemma clip_example:
  "length (filter (\<lambda>x::real. 95 / 100 \<le> \<bar>x\<bar> \<and> \<bar>x\<bar> < 99 / 100)
      (replicate a 0 @ [97 / 100] @ replicate b 0)) = 1
   \<and> length (filter (\<lambda>x::real. 99 / 100 \<le> \<bar>x\<bar>)
      (replicate a 0 @ [97 / 100] @ replicate b 0)) = 0"
  by simp

text \<open>
  C7. The hard-clip count is the number of samples of absolute value at least 0.99, the
  soft-clip count the number of those with absolute value in [0.95, 0.99). No sample is
  counted twice: together the two counts are the number of samples of absolute value at
  least 0.95. A buffer with one sample at 0.97 among zeros has soft-clip count 1 and
  hard-clip count 0.
\<close>

theorem clip_counts:
  "calc_hard_clip xs = length (filter (\<lambda>x. 99 / 100 \<le> \<bar>x\<bar>) xs)
   \<and> calc_soft_clip xs =
       length (filter (\<lambda>x. 95 / 100 \<le> \<bar>x\<bar> \<and> \<bar>x\<bar> < 99 / 100) xs)
   \<and> calc_hard_clip xs + calc_soft_clip xs = length (filter (\<lambda>x. 95 / 100 \<le> \<bar>x\<bar>) xs)
   \<and> calc_soft_clip (replicate a 0 @ [97 / 100] @ replicate b 0) = 1
   \<and> calc_hard_clip (replicate a 0 @ [97 / 100] @ replicate b 0) = 0"
  unfolding calc_hard_clip_filter calc_soft_clip_filter
  using clip_bands_partition [of xs] clip_example [of a b] by blast

subsection \<open>The distortion estimate\<close>

lemma calc_rms_nonneg: "xs \<noteq> [] \<Longrightarrow> \<exists>q. calc_rms xs = Fin q \<and> 0 \<le> q"
proof -
  assume ne: "xs \<noteq> []"
  have "0 \<le> sum_list (map (\<lambda>x. x ^ 2) xs)"
    by (rule sum_list_nonneg) auto
  then have "0 \<le> sum_list (map (\<lambda>x. x ^ 2) xs) / real (length xs)"
    by simp
  then show ?thesis using ne by (simp add: calc_rms_def np_mean_def)
qed

lemma np_mean_abs:
  "np_mean (map abs d) = NaN \<or> (\<exists>v. np_mean (map abs d) = Fin v \<and> 0 \<le> v)"
proof (cases "d = []")
  case True
  then show ?thesis by (simp add: np_mean_Nil)
next
  case False
  have "0 \<le> sum_list (map abs d)"
    by (rule sum_list_nonneg) auto
  then have "0 \<le> sum_list (map abs d) / real (length d)" by simp
  then show ?thesis using False by (simp add: np_mean_def)
qed

lemma calc_sym_error_cases:
  "calc_sym_error xs = Inr s \<Longrightarrow> s = NaN \<or> (\<exists>v. s = Fin v \<and> 0 \<le> v)"
  using np_mean_abs
  by (auto simp add: calc_sym_error_def Let_def split: sum.splits)

lemma calc_thd_est_Fin:
  assumes "0 \<le> v" "0 \<le> q"
  shows "\<exists>t. calc_thd_est (Fin v) (Fin q) = Fin t \<and> 0 \<le> t \<and> t \<le> 100"
proof -
  have pos: "0 < q + eps" using assms(2) eps_pos by simp
  then have "0 \<le> v / (q + eps) * 100" using assms(1) by simp
  then show ?thesis using pos by (simp add: calc_thd_est_def py_min_def)
qed

text \<open>
  C8. On every non-empty sequence the analysis completes and its distortion estimate is a
  finite number between 0 and 100.
\<close>

theorem thd_est_in_range:
  assumes "xs \<noteq> []"
  shows "\<exists>r t. metric_suite xs = Inr r \<and> thd_est r = Fin t \<and> 0 \<le> t \<and> t \<le> 100"
proof -
  obtain r where r: "metric_suite xs = Inr r"
    using metric_suite_total [OF assms] by blast
  note f = metric_suite_fields [OF r]
  obtain q where q: "rms r = Fin q" "0 \<le> q"
    using calc_rms_nonneg [OF assms] f(3) by auto
  obtain s where s: "calc_sym_error xs = Inr s" "thd_est r = calc_thd_est s (rms r)"
    using f(11) by blast
  have "\<exists>t. thd_est r = Fin t \<and> 0 \<le> t \<and> t \<le> 100"
    using calc_sym_error_cases [OF s(1)]
  proof
    assume "s = NaN"
    then show ?thesis using s(2) by (simp add: calc_thd_est_NaN)
  next
    assume "\<exists>v. s = Fin v \<and> 0 \<le> v"
    then obtain v where "s = Fin v" "0 \<le> v" by blast
    then show ?thesis using s(2) q calc_thd_est_Fin [of v q] by simp
  qed
  then show ?thesis using r by blast
qed

theorem thd_est_in_range_witness:
  "[1 / 2, - 1 / 4] \<noteq> ([] :: real list) \<and>
   (\<exists>r t. metric_suite [1 / 2, - 1 / 4] = Inr r \<and> thd_est r = Fin t \<and> 0 \<le> t \<and> t \<le> 100)"
  using thd_est_in_range [of "[1 / 2, - 1 / 4]"] by simp

subsection \<open>Channel reduction\<close>

lemma reshape_rows:
  assumes "0 < n" "length xs = f * n"
  shows "reshape n xs = Inr (map (\<lambda>i. take n (drop (i * n) xs)) [0..<f])"
  using assms by (simp add: reshape_def)

lemma sum_list_row:
  assumes "i * n + n \<le> length xs"
  shows "sum_list (map g (take n (drop (i * n) xs))) = (\<Sum>c<n. g (xs ! (i * n + c)))"
proof -
  have len: "length (take n (drop (i * n) xs)) = n" using assms by simp
  have "sum_list (map g (take n (drop (i * n) xs))) =
      (\<Sum>c = 0..<n. map g (take n (drop (i * n) xs)) ! c)"
    using sum_list_sum_nth [of "map g (take n (drop (i * n) xs))"] len by simp
  also have "\<dots> = (\<Sum>c = 0..<n. g (xs ! (i * n + c)))"
    using assms by (intro sum.cong) (simp_all add: len)
  finally show ?thesis by (simp add: lessThan_atLeast0)
qed

lemma row_in_range: "i < f \<Longrightarrow> i * n + n \<le> f * (n::nat)"
proof -
  assume "i < f"
  then have "Suc i \<le> f" by simp
  then have "Suc i * n \<le> f * n" by (rule mult_le_mono1)
  then show ?thesis by (simp add: add.commute)
qed

text \<open>
  C9. On mono input the reducer only normalises: each output sample is the raw 16-bit
  sample divided by 32768. On \<open>n > 1\<close> interleaved channels with \<open>f\<close> whole frames it
  yields \<open>f\<close> samples, the \<open>i\<close>-th being the arithmetic mean of the \<open>n\<close> channel values of
  frame \<open>i\<close>, divided by 32768.
\<close>

theorem channel_reducer_mean:
  "channel_reducer 1 raw = Inr (map (\<lambda>s. real_of_int (sint s) / 32768) raw)
   \<and> (1 < n \<and> length raw = f * n \<longrightarrow>
        (\<exists>out. channel_reducer n raw = Inr out \<and> length out = f
           \<and> (\<forall>i<f. out ! i =
                 (\<Sum>c<n. real_of_int (sint (raw ! (i * n + c)))) / real n / 32768)))"
proof (intro conjI impI)
  show "channel_reducer 1 raw = Inr (map (\<lambda>s. real_of_int (sint s) / 32768) raw)"
    by (simp add: channel_reducer_def audio_mono_def)
next
  assume h: "1 < n \<and> length raw = f * n"
  then have n: "0 < n" "1 < n" and len: "length raw = f * n" by simp_all
  let ?row = "\<lambda>i. take n (drop (i * n) raw)"
  let ?out = "map (\<lambda>x. x / 32768) (mean_axis1 (map ?row [0..<f]))"
  have red: "channel_reducer n raw = Inr ?out"
    using n by (simp add: channel_reducer_def audio_mono_def reshape_rows [OF n(1) len])
  have "?out ! i = (\<Sum>c<n. real_of_int (sint (raw ! (i * n + c)))) / real n / 32768"
    if "i < f" for i
  proof -
    have le: "i * n + n \<le> length raw"
      using that len row_in_range [of i f n] by simp
    have "length (?row i) = n" using le by simp
    then show ?thesis
      using that sum_list_row [OF le, of "\<lambda>s. real_of_int (sint s)"]
      by (simp add: mean_axis1_def)
  qed
  then show "\<exists>out. channel_reducer n raw = Inr out \<and> length out = f
           \<and> (\<forall>i<f. out ! i =
                 (\<Sum>c<n. real_of_int (sint (raw ! (i * n + c)))) / real n / 32768)"
    using red by (simp add: mean_axis1_def)
qed

theorem channel_reducer_mean_witness:
  "(1::nat) < 2 \<and> length [100, 300, - 32768, 0 :: 16 word] = 2 * 2
   \<and> (\<exists>out. channel_reducer 2 [100, 300, - 32768, 0] = Inr out \<and> length out = 2
         \<and> out ! 0 = (100 + 300) / 2 / 32768 \<and> out ! 1 = (- 32768 + 0) / 2 / 32768)"
proof -
  have "\<exists>out. channel_reducer 2 [100, 300, - 32768, 0] = Inr out \<and> length out = 2
       \<and> (\<forall>i<2. out ! i =
             (\<Sum>c<2. real_of_int (sint ([100, 300, - 32768, 0 :: 16 word] ! (i * 2 + c))))
               / real 2 / 32768)"
    using channel_reducer_mean [of "[100, 300, - 32768, 0]" 2 2] by simp
  then obtain out where o: "channel_reducer 2 [100, 300, - 32768, 0] = Inr out"
      "length out = 2"
      "\<forall>i<2. out ! i =
         (\<Sum>c<2. real_of_int (sint ([100, 300, - 32768, 0 :: 16 word] ! (i * 2 + c))))
           / real 2 / 32768"
    by blast
  from o(3) [rule_format, of 0] have "out ! 0 = (100 + 300) / 2 / 32768"
    by (simp add: lessThan_Suc numeral_2_eq_2)
  moreover from o(3) [rule_format, of 1] have "out ! 1 = (- 32768 + 0) / 2 / 32768"
    by (simp add: lessThan_Suc numeral_2_eq_2)
  ultimately show ?thesis using o(1,2) by simp
qed

subsection \<open>Lower bound of the score\<close>

text \<open>
  C10. Whenever the rules are evaluated the score is at least 30: the three clipping
  deductions exclude one another, so no more than 40 + 20 + 10 = 70 is ever subtracted
  from 100, and the score is never negative.
\<close>

theorem score_at_least_30:
  "analyze_wav w = Inr r \<Longrightarrow> 30 \<le> score r \<and> 100 - score r \<le> 40 + 20 + 10"
proof -
  assume "analyze_wav w = Inr r"
  then obtain xs where "metric_suite xs = Inr r"
    using analyze_wav_metric_suite by blast
  then have "score r =
      fst (final_assessment (peak_db r) (hard_clip_pct r) (soft_clip_pct r) (mean_val r))"
    by (rule metric_suite_score)
  then show ?thesis
    using score_bounds [of "peak_db r" "hard_clip_pct r" "soft_clip_pct r" "mean_val r"]
    by simp
qed

theorem score_at_least_30_witness:
  "\<exists>r. analyze_wav silent_frame = Inr r \<and> 30 \<le> score r \<and> 100 - score r \<le> 40 + 20 + 10"
proof -
  obtain r where r: "analyze_wav silent_frame = Inr r"
    using metric_suite_total [of "[0]"] by (auto simp add: analyze_silent_frame)
  from score_at_least_30 [OF r] r show ?thesis by blast
qed

end
